theory Spec2Isabelle
  imports Main "HOL-Library.Sublist"
begin

section \<open>Strings\<close>

text \<open>
  A JavaScript string is modelled as a \<open>string\<close>, one \<open>char\<close> for each code unit, so the
  model covers the strings whose code units are below 256 (the code points U+0000 to
  U+00FF). On these, \<open>String.prototype.toLowerCase\<close> changes exactly the letters A to Z and
  the letters U+00C0 to U+00DE other than the multiplication sign U+00D7, each to the code
  point 32 above it, which is the same code with bit 5 set.
\<close>

definition toLowerCase_char :: "char \<Rightarrow> char" where
  "toLowerCase_char c =
     (let n = (of_char c :: nat)
      in if (65 \<le> n \<and> n \<le> 90) \<or> (192 \<le> n \<and> n \<le> 222 \<and> n \<noteq> 215)
         then Char (digit0 c) (digit1 c) (digit2 c) (digit3 c) (digit4 c) True (digit6 c) (digit7 c)
         else c)"

definition toLowerCase :: "string \<Rightarrow> string" where
  "toLowerCase s = map toLowerCase_char s"

text \<open>
  The characters that the regular expression class \<open>\s\<close> matches, among the code points
  below 256: tab, line feed, vertical tab, form feed, carriage return, space and the
  no-break space.
\<close>

definition is_space :: "char \<Rightarrow> bool" where
  "is_space c = ((of_char c :: nat) \<in> {9, 10, 11, 12, 13, 32, 160})"

text \<open>The whitespace-separated tokens of an attribute value, as a class list is read.\<close>

fun tokens :: "string \<Rightarrow> string \<Rightarrow> string list" where
  "tokens acc [] = (if acc = [] then [] else [acc])"
| "tokens acc (c # cs) =
     (if is_space c then (if acc = [] then tokens [] cs else acc # tokens [] cs)
      else tokens (acc @ [c]) cs)"

section \<open>The HTML query capability\<close>

text \<open>
  The parsed document that \<open>cheerio.load\<close> returns: a forest of element and text nodes.
  An element has its tag name, its attributes in source order and its children.
  A selection (a cheerio object) is the list of its nodes in document order.
\<close>

datatype node = Text string | Element string "(string \<times> string) list" "node list"

type_synonym selection = "node list"

fun is_tag :: "string \<Rightarrow> node \<Rightarrow> bool" where
  "is_tag t (Text _) = False"
| "is_tag t (Element name _ _) = (name = t)"

fun node_attr :: "string \<Rightarrow> node \<Rightarrow> string option" where
  "node_attr a (Text _) = None"
| "node_attr a (Element _ attribs _) = map_of attribs a"

definition node_has_class :: "string \<Rightarrow> node \<Rightarrow> bool" where
  "node_has_class cls n =
     (case node_attr ''class'' n of None \<Rightarrow> False | Some v \<Rightarrow> cls \<in> set (tokens [] v))"

text \<open>All nodes below a node, in document order.\<close>

fun descendants :: "node \<Rightarrow> node list" where
  "descendants (Text _) = []"
| "descendants (Element _ _ cs) = concat (map (\<lambda>c. c # descendants c) cs)"

text \<open>\<open>$(sel)\<close> for a simple selector: every node of the document that matches.\<close>

definition select :: "(node \<Rightarrow> bool) \<Rightarrow> node list \<Rightarrow> selection" where
  "select P doc = filter P (concat (map (\<lambda>n. n # descendants n) doc))"

text \<open>\<open>.eq(i)\<close>: the selection of the node at index \<open>i\<close>, empty when there is none.\<close>

definition eq :: "nat \<Rightarrow> selection \<Rightarrow> selection" where
  "eq i sel = (if i < length sel then [sel ! i] else [])"

text \<open>
  \<open>.find(sel)\<close> for a simple selector: the matching nodes below the nodes of the selection.
  The program calls it on selections of at most one node only (each comes from \<open>.eq\<close>),
  where the concatenation is in document order and free of repetitions.
\<close>

definition find_sel :: "(node \<Rightarrow> bool) \<Rightarrow> selection \<Rightarrow> selection" where
  "find_sel P sel = concat (map (\<lambda>n. filter P (descendants n)) sel)"

text \<open>
  \<open>.find('A B')\<close>, a descendant combinator: the nodes below the context node that match
  \<open>B\<close> and lie below a node that matches \<open>A\<close>, where that node is the context node
  itself or a node below it; a node above the context node does not count (the selector
  engine roots a selector given with a context at that context, and lets the first step
  be the context node). The flag says whether a node that matches \<open>A\<close> has been passed
  on the way down; at the start it says whether the context node matches \<open>A\<close>.
\<close>

fun under :: "(node \<Rightarrow> bool) \<Rightarrow> (node \<Rightarrow> bool) \<Rightarrow> bool \<Rightarrow> node \<Rightarrow> node list" where
  "under A B inside (Text _) = []"
| "under A B inside (Element _ _ cs) =
     concat (map (\<lambda>c. (if inside \<and> B c then [c] else []) @ under A B (inside \<or> A c) c) cs)"

definition find_under :: "(node \<Rightarrow> bool) \<Rightarrow> (node \<Rightarrow> bool) \<Rightarrow> selection \<Rightarrow> selection" where
  "find_under A B sel = concat (map (\<lambda>n. under A B (A n) n) sel)"

text \<open>\<open>.hasClass(c)\<close>: some node of the selection carries the class.\<close>

definition hasClass :: "string \<Rightarrow> selection \<Rightarrow> bool" where
  "hasClass cls sel = list_ex (node_has_class cls) sel"

text \<open>\<open>.attr(a)\<close>: the attribute of the first node, \<open>None\<close> for \<open>undefined\<close>.\<close>

definition attr :: "string \<Rightarrow> selection \<Rightarrow> string option" where
  "attr a sel = (case sel of [] \<Rightarrow> None | n # _ \<Rightarrow> node_attr a n)"

text \<open>
  \<open>.text()\<close>: the text nodes at and below the nodes of the selection, concatenated; the
  empty string for the empty selection.
\<close>

fun node_text :: "node \<Rightarrow> string" where
  "node_text (Text s) = s"
| "node_text (Element _ _ cs) = concat (map node_text cs)"

definition text_of :: "selection \<Rightarrow> string" where
  "text_of sel = concat (map node_text sel)"

section \<open>Values, errors and promises\<close>

text \<open>
  The payload of the fetch collaborator is typed \<open>any\<close>. The model has the values that
  decide how \<open>json.parse.text['*']\<close> evaluates: reading a property of \<open>undefined\<close> or
  \<open>null\<close> throws a TypeError, a string has none of the three properties read, and an
  object has the properties it lists.
\<close>

datatype jsval = Undefined | Null | Str string | Obj "(string \<times> jsval) list"

text \<open>
  An error thrown or passed by a collaborator is kept as the text that a template literal
  renders it to, which is all the program uses of it. The collaborators outside the module are parameters:
  \<open>load\<close> is \<open>cheerio.load\<close>, which returns the parsed document or throws, and
  \<open>typeErrorText\<close> is the text of the engine's TypeError for reading a property of
  \<open>undefined\<close> or \<open>null\<close>.
\<close>

record env =
  load :: "jsval \<Rightarrow> string + node list"
  typeErrorText :: "jsval \<Rightarrow> string \<Rightarrow> string"

fun get_prop :: "env \<Rightarrow> jsval \<Rightarrow> string \<Rightarrow> string + jsval" where
  "get_prop E Undefined p = Inl (typeErrorText E Undefined p)"
| "get_prop E Null p = Inl (typeErrorText E Null p)"
| "get_prop E (Str s) p = Inr Undefined"
| "get_prop E (Obj fs) p = Inr (case map_of fs p of None \<Rightarrow> Undefined | Some v \<Rightarrow> v)"

text \<open>
  The state of a promise. \<open>resolve\<close> and \<open>reject\<close> settle a pending promise and leave a
  settled one as it is.
\<close>

datatype ('a, 'e) promise = Pending | Resolved 'a | Rejected 'e

fun resolve :: "'a \<Rightarrow> ('a, 'e) promise \<Rightarrow> ('a, 'e) promise" where
  "resolve v Pending = Resolved v"
| "resolve v p = p"

fun reject :: "'e \<Rightarrow> ('a, 'e) promise \<Rightarrow> ('a, 'e) promise" where
  "reject e Pending = Rejected e"
| "reject e p = p"

section \<open>The data model\<close>

text \<open>
  \<open>IRankKey\<close> and \<open>IRank\<close> as the interfaces declare them. In \<open>IRank\<close> the optional
  fields are \<open>None\<close> when absent, and \<open>rank\<close>, \<open>score\<close> and \<open>team\<close> are \<open>None\<close> when
  \<open>null\<close>. The field \<open>error\<close> is not in the interface: the rejections of the module
  write it.
\<close>

record IRankKey =
  rank :: string
  team :: string

record IRank =
  errorMsg :: "string option"
  error :: "string option"
  hasError :: "bool option"
  isClinched :: bool
  isIneligible :: bool
  rank :: "string option"
  score :: "string option"
  team :: "string option"

text \<open>
  The values that the promises of the module reject with: a string, an object of the
  shape of \<open>IRank\<close>, or an error value that was thrown, kept as its text. \<open>render\<close>
  is the text that a template literal gives for such a value.
\<close>

datatype rejection = Message string | Record IRank | Thrown string

fun render :: "rejection \<Rightarrow> string" where
  "render (Message s) = s"
| "render (Record v) = ''[object Object]''"
| "render (Thrown s) = s"

text \<open>
  A \<open>Map\<close> whose keys are objects compares keys by identity and iterates in insertion
  order. A key object is its identity (the number of key objects allocated before it)
  with its fields, which the program never changes. \<open>set\<close> replaces the value of a key
  that is present and appends a new entry otherwise.
\<close>

type_synonym key_object = "nat \<times> IRankKey"

type_synonym rank_map = "(key_object \<times> IRank) list"

definition map_set :: "rank_map \<Rightarrow> key_object \<Rightarrow> IRank \<Rightarrow> rank_map" where
  "map_set m k v =
     (if list_ex (\<lambda>e. fst (fst e) = fst k) m
      then map (\<lambda>e. if fst (fst e) = fst k then (fst e, v) else e) m
      else m @ [(k, v)])"

definition map_get :: "rank_map \<Rightarrow> key_object \<Rightarrow> IRank option" where
  "map_get m k = map_option snd (find (\<lambda>e. fst (fst e) = fst k) m)"

definition map_keys :: "rank_map \<Rightarrow> key_object list" where
  "map_keys m = map fst m"

section \<open>The module\<close>

definition RANK_TABLE_OFFSET :: nat where
  "RANK_TABLE_OFFSET = 2"

definition CLINCHED_COLOR_INDICATOR :: string where
  "CLINCHED_COLOR_INDICATOR = ''background-color:rgb(204,255,204)''"

definition INELIGIBLE_COLOR_INDICATOR :: string where
  "INELIGIBLE_COLOR_INDICATOR = ''background-color:rgb(255,204,204)''"

text \<open>
  The loop of \<open>_parseRanks\<close>: \<open>i\<close> runs up to \<open>len\<close>, \<open>a\<close> counts the key objects allocated
  so far and \<open>ranks\<close> is the map under construction.
\<close>

function rows_loop :: "selection \<Rightarrow> nat \<Rightarrow> nat \<Rightarrow> nat \<Rightarrow> rank_map \<Rightarrow> rank_map" where
  "rows_loop rankTableRows i len a ranks =
     (if i < len then
        (let thisRow = eq i rankTableRows
         in if \<not> hasClass ''expand-child'' thisRow then
              (let isClinched = (attr ''style'' thisRow = Some CLINCHED_COLOR_INDICATOR);
                   isIneligible = (attr ''style'' thisRow = Some INELIGIBLE_COLOR_INDICATOR);
                   rank = text_of (eq 0 (find_sel (is_tag ''b'') (eq 0 (find_sel (is_tag ''td'') thisRow))));
                   team = text_of (eq 0 (find_under (node_has_class ''team-template-text'') (is_tag ''a'')
                                           (eq 1 (find_sel (is_tag ''td'') thisRow))));
                   score = text_of (eq 0 (find_sel (is_tag ''b'') (eq 2 (find_sel (is_tag ''td'') thisRow))))
               in rows_loop rankTableRows (Suc i) len (Suc a)
                    (map_set ranks (a, \<lparr>IRankKey.rank = rank, IRankKey.team = team\<rparr>)
                       \<lparr>errorMsg = None, error = None, hasError = None,
                        isClinched = isClinched, isIneligible = isIneligible,
                        rank = Some rank, score = Some score, team = Some team\<rparr>))
            else rows_loop rankTableRows (Suc i) len a ranks)
      else ranks)"
  by pat_completeness auto
termination
  by (relation "measure (\<lambda>(rankTableRows, i, len, a, ranks). len - i)") auto

declare rows_loop.simps [simp del]

text \<open>
  \<open>_parseRanks\<close>, called when \<open>a\<close> key objects exist: \<open>Inl\<close> is the error that
  \<open>cheerio.load\<close> throws.
\<close>

definition parseRanks :: "env \<Rightarrow> nat \<Rightarrow> jsval \<Rightarrow> string + rank_map" where
  "parseRanks E a tableHtml =
     (case load E tableHtml of
        Inl err \<Rightarrow> Inl err
      | Inr doc \<Rightarrow>
          (let rankTableRows = find_sel (is_tag ''tr'') (eq 0 (select (node_has_class ''wikitable'') doc))
           in Inr (rows_loop rankTableRows RANK_TABLE_OFFSET (length rankTableRows) a [])))"

text \<open>
  \<open>getRankings\<close>, given the state in which the promise of \<open>cacheFetch\<close> ends: pending
  for ever, rejected with an error, or fulfilled with the payload. The callback of
  \<open>then\<close> reads \<open>json.parse.text['*']\<close> and parses it; what it throws reaches the
  callback of \<open>catch\<close>, as a rejection of the collaborator does.
\<close>

definition getRankings ::
  "env \<Rightarrow> nat \<Rightarrow> (jsval, string) promise \<Rightarrow> (rank_map, rejection) promise" where
  "getRankings E a fetched =
     (case fetched of
        Pending \<Rightarrow> Pending
      | Rejected err \<Rightarrow> reject (Message (''Error fetching team list: '' @ err)) Pending
      | Resolved json \<Rightarrow>
          (case get_prop E json ''parse'' of
             Inl err \<Rightarrow> reject (Message (''Error fetching team list: '' @ err)) Pending
           | Inr parse \<Rightarrow>
               (case get_prop E parse ''text'' of
                  Inl err \<Rightarrow> reject (Message (''Error fetching team list: '' @ err)) Pending
                | Inr txt \<Rightarrow>
                    (case get_prop E txt ''*'' of
                       Inl err \<Rightarrow> reject (Message (''Error fetching team list: '' @ err)) Pending
                     | Inr tableHtml \<Rightarrow>
                         (case parseRanks E a tableHtml of
                            Inl err \<Rightarrow> reject (Message (''Error fetching team list: '' @ err)) Pending
                          | Inr ranks \<Rightarrow> resolve ranks Pending)))))"

text \<open>
  The call of \<open>getRankings\<close> itself. A call ends in \<open>Inl\<close> when it throws, with the text
  of the error, and in \<open>Inr\<close> when it returns. The body is \<open>return new Promise(executor)\<close>:
  the constructor runs the executor at once, and when the executor throws, the
  constructor catches the error and rejects the promise with it, so the constructor
  returns the promise in both cases. The argument of \<open>new_Promise\<close> says how the run of
  the executor ends: it throws, or it returns and its callbacks take the promise to the
  given state. The executor of \<open>getRankings\<close> calls \<open>cacheFetch\<close> and registers the two
  callbacks on the promise that comes back; it throws when that call throws. The
  collaborator is to return a promise; a call of it that throws is in the model to say
  what the module does even then.
\<close>

definition new_Promise :: "string + ('a, rejection) promise \<Rightarrow> string + ('a, rejection) promise" where
  "new_Promise executor =
     (case executor of
        Inl err \<Rightarrow> Inr (reject (Thrown err) Pending)
      | Inr p \<Rightarrow> Inr p)"

definition getRankings_call ::
  "env \<Rightarrow> nat \<Rightarrow> string + (jsval, string) promise \<Rightarrow> string + (rank_map, rejection) promise" where
  "getRankings_call E a cacheFetch =
     new_Promise
       (case cacheFetch of
          Inl err \<Rightarrow> Inl err
        | Inr fetched \<Rightarrow> Inr (getRankings E a fetched))"

text \<open>
  \<open>getRankByStanding\<close>: the loop over the keys has no \<open>break\<close>, so it calls \<open>resolve\<close> at
  every matching key and \<open>reject\<close> after the loop; the promise keeps the first
  settlement.
\<close>

definition getRankByStanding ::
  "env \<Rightarrow> nat \<Rightarrow> string \<Rightarrow> (jsval, string) promise \<Rightarrow> (IRank option, rejection) promise" where
  "getRankByStanding E a = (\<lambda>rank fetched.
     (case getRankings E a fetched of
        Pending \<Rightarrow> Pending
      | Resolved rankmap \<Rightarrow>
          reject (Record \<lparr>errorMsg = Some ''No team at the given rank'', error = None, hasError = Some True,
                  isClinched = False, isIneligible = False,
                  rank = None, score = None, team = None\<rparr>)
            (fold (\<lambda>key p. if IRankKey.rank (snd key) = rank then resolve (map_get rankmap key) p else p)
               (map_keys rankmap) Pending)
      | Rejected err \<Rightarrow>
          reject (Record \<lparr>errorMsg = None,
                  error = Some (''Error attempting to fetch rank data'' @ [CHR 0x0A] @ render err),
                  hasError = Some True, isClinched = False, isIneligible = False,
                  rank = None, score = None, team = None\<rparr>) Pending))"

definition getRankByTeam ::
  "env \<Rightarrow> nat \<Rightarrow> string \<Rightarrow> (jsval, string) promise \<Rightarrow> (IRank option, rejection) promise" where
  "getRankByTeam E a = (\<lambda>team fetched.
     (case getRankings E a fetched of
        Pending \<Rightarrow> Pending
      | Resolved rankmap \<Rightarrow>
          reject (Record \<lparr>errorMsg = None, error = Some ''No team with that name exists'', hasError = Some True,
                  isClinched = False, isIneligible = False,
                  rank = None, score = None, team = None\<rparr>)
            (fold (\<lambda>key p. if toLowerCase (IRankKey.team (snd key)) = toLowerCase team
                            then resolve (map_get rankmap key) p else p)
               (map_keys rankmap) Pending)
      | Rejected err \<Rightarrow>
          reject (Record \<lparr>errorMsg = None,
                  error = Some (''Error attempting to fetch rank data'' @ [CHR 0x0A] @ render err),
                  hasError = Some True, isClinched = False, isIneligible = False,
                  rank = None, score = None, team = None\<rparr>) Pending))"

section \<open>The rows and records that the claims speak of\<close>

text \<open>
  The rows of the first table of class \<open>wikitable\<close>, the data rows among them (those
  after the first two that do not carry the class \<open>expand-child\<close>), the three elements
  looked up in a row, and the key and the record that the loop builds from a row.
  \<open>entries a rs\<close> is the map with one entry for each row of \<open>rs\<close>, in order, the keys
  being fresh objects numbered from \<open>a\<close>.
\<close>

definition rankTableRows :: "node list \<Rightarrow> selection" where
  "rankTableRows doc = find_sel (is_tag ''tr'') (eq 0 (select (node_has_class ''wikitable'') doc))"

definition data_rows :: "node list \<Rightarrow> node list" where
  "data_rows doc = filter (\<lambda>r. \<not> node_has_class ''expand-child'' r) (drop 2 (rankTableRows doc))"

definition rank_element :: "node \<Rightarrow> selection" where
  "rank_element r = eq 0 (find_sel (is_tag ''b'') (eq 0 (find_sel (is_tag ''td'') [r])))"

definition team_element :: "node \<Rightarrow> selection" where
  "team_element r =
     eq 0 (find_under (node_has_class ''team-template-text'') (is_tag ''a'') (eq 1 (find_sel (is_tag ''td'') [r])))"

definition score_element :: "node \<Rightarrow> selection" where
  "score_element r = eq 0 (find_sel (is_tag ''b'') (eq 2 (find_sel (is_tag ''td'') [r])))"

definition row_key :: "node \<Rightarrow> IRankKey" where
  "row_key r = \<lparr>IRankKey.rank = text_of (rank_element r), IRankKey.team = text_of (team_element r)\<rparr>"

definition row_record :: "node \<Rightarrow> IRank" where
  "row_record r =
     \<lparr>errorMsg = None, error = None, hasError = None,
      isClinched = (node_attr ''style'' r = Some CLINCHED_COLOR_INDICATOR),
      isIneligible = (node_attr ''style'' r = Some INELIGIBLE_COLOR_INDICATOR),
      rank = Some (text_of (rank_element r)), score = Some (text_of (score_element r)),
      team = Some (text_of (team_element r))\<rparr>"

fun entries :: "nat \<Rightarrow> node list \<Rightarrow> rank_map" where
  "entries a [] = []"
| "entries a (r # rs) = ((a, row_key r), row_record r) # entries (Suc a) rs"


section \<open>Example pages\<close>

text \<open>
  Three parsed pages for the concrete instances below. The first has two header rows, a
  row on the clinched background, a row of class \<open>expand-child\<close>, a row on the
  ineligible background, an unstyled row with the same rank and team as the row before
  it, and a row without bold text or team link. The second is the first without the row
  of class \<open>expand-child\<close>. The third has two data rows: in the first the second cell
  itself carries the class \<open>team-template-text\<close> and holds the link, in the second the
  row carries that class and the second cell holds a link. \<open>example_env\<close> parses the
  strings \<open>page a\<close>, \<open>page b\<close> and \<open>page c\<close> to them, and \<open>payload\<close> is the reply of
  the wiki that carries a page.
\<close>

definition standings_row :: "(string \<times> string) list \<Rightarrow> string \<Rightarrow> string \<Rightarrow> string \<Rightarrow> node" where
  "standings_row attribs r t s =
     Element ''tr'' attribs
       [Element ''td'' [] [Element ''b'' [] [Text r]],
        Element ''td'' [] [Element ''span'' [(''class'', ''team-template-text'')] [Element ''a'' [] [Text t]]],
        Element ''td'' [] [Element ''b'' [] [Text s]]]"

definition header_row :: "string \<Rightarrow> node" where
  "header_row s = Element ''tr'' [] [Element ''th'' [] [Text s]]"

definition page_a :: "node list" where
  "page_a =
     [Element ''table'' [(''class'', ''wikitable sortable'')]
        [header_row ''Standings'',
         header_row ''Points'',
         standings_row [(''style'', ''background-color:rgb(204,255,204)'')] ''1'' ''Team A'' ''900'',
         standings_row [(''class'', ''expand-child'')] ''9'' ''Team X'' ''1'',
         standings_row [(''style'', ''background-color:rgb(255,204,204)'')] ''2'' ''Team B'' ''700'',
         standings_row [] ''2'' ''Team B'' ''700'',
         Element ''tr'' [] [Element ''td'' [] [Text ''-'']]]]"

definition page_b :: "node list" where
  "page_b =
     [Element ''table'' [(''class'', ''wikitable sortable'')]
        [header_row ''Standings'',
         header_row ''Points'',
         standings_row [(''style'', ''background-color:rgb(204,255,204)'')] ''1'' ''Team A'' ''900'',
         standings_row [(''style'', ''background-color:rgb(255,204,204)'')] ''2'' ''Team B'' ''700'',
         standings_row [] ''2'' ''Team B'' ''700'',
         Element ''tr'' [] [Element ''td'' [] [Text ''-'']]]]"

definition page_c :: "node list" where
  "page_c =
     [Element ''table'' [(''class'', ''wikitable'')]
        [header_row ''Standings'',
         header_row ''Points'',
         Element ''tr'' []
           [Element ''td'' [] [Element ''b'' [] [Text ''3'']],
            Element ''td'' [(''class'', ''team-template-text'')] [Element ''a'' [] [Text ''On The Cell'']],
            Element ''td'' [] [Element ''b'' [] [Text ''500'']]],
         Element ''tr'' [(''class'', ''team-template-text'')]
           [Element ''td'' [] [Element ''b'' [] [Text ''4'']],
            Element ''td'' [] [Element ''a'' [] [Text ''Above The Cell'']],
            Element ''td'' [] [Element ''b'' [] [Text ''400'']]]]]"

definition example_env :: env where
  "example_env =
     \<lparr>load = (\<lambda>v. case v of
                 Str s \<Rightarrow> Inr (if s = ''page a'' then page_a else if s = ''page b'' then page_b
                                else if s = ''page c'' then page_c else [])
               | _ \<Rightarrow> Inl ''Error: cheerio.load() expects a string''),
      typeErrorText = (\<lambda>v p. ''TypeError: Cannot read property '' @ [CHR 0x27] @ p @ [CHR 0x27] @
                         (case v of Null \<Rightarrow> '' of null'' | _ \<Rightarrow> '' of undefined''))\<rparr>"

definition payload :: "string \<Rightarrow> jsval" where
  "payload html = Obj [(''parse'', Obj [(''title'', Str ''Teams''), (''text'', Obj [(''*'', Str html)])])]"

section \<open>The loop and the lookups\<close>

lemma map_set_fresh:
  "\<forall>e\<in>set m. fst (fst e) < fst k \<Longrightarrow> map_set m k v = m @ [(k, v)]"
  by (auto simp: map_set_def list_ex_iff)

lemma rows_loop_entries:
  "len = length rows \<Longrightarrow> \<forall>e\<in>set ranks. fst (fst e) < a \<Longrightarrow>
   rows_loop rows i len a ranks =
     ranks @ entries a (filter (\<lambda>r. \<not> node_has_class ''expand-child'' r) (drop i rows))"
proof (induction rows i len a ranks rule: rows_loop.induct)
  case (1 rows i len a ranks)
  show ?case
  proof (cases "i < len")
    case False
    with "1.prems" show ?thesis by (simp add: rows_loop.simps)
  next
    case True
    with "1.prems" have nth: "eq i rows = [rows ! i]" and dr: "drop i rows = rows ! i # drop (Suc i) rows"
      by (simp_all add: eq_def Cons_nth_drop_Suc)
    show ?thesis
    proof (cases "node_has_class ''expand-child'' (rows ! i)")
      case True
      then have hc: "hasClass ''expand-child'' (eq i rows)" by (simp add: nth hasClass_def)
      have "rows_loop rows i len a ranks = rows_loop rows (Suc i) len a ranks"
        using \<open>i < len\<close> hc by (subst rows_loop.simps) simp
      also have "\<dots> = ranks @ entries a (filter (\<lambda>r. \<not> node_has_class ''expand-child'' r) (drop (Suc i) rows))"
        using "1.IH"(2)[OF \<open>i < len\<close> refl] hc "1.prems" by simp
      finally show ?thesis using True by (simp add: dr)
    next
      case False
      then have hc: "\<not> hasClass ''expand-child'' (eq i rows)" by (simp add: nth hasClass_def)
      let ?k = "(a, row_key (rows ! i))" and ?v = "row_record (rows ! i)"
      have fresh: "\<forall>e\<in>set (ranks @ [(?k, ?v)]). fst (fst e) < Suc a"
        using "1.prems"(2) by (auto simp: less_Suc_eq)
      have "rows_loop rows i len a ranks = rows_loop rows (Suc i) len (Suc a) (map_set ranks ?k ?v)"
        using \<open>i < len\<close> hc
        by (subst rows_loop.simps)
           (simp add: Let_def nth row_key_def row_record_def rank_element_def team_element_def
              score_element_def attr_def)
      also have ms: "map_set ranks ?k ?v = ranks @ [(?k, ?v)]"
        using "1.prems"(2) by (intro map_set_fresh) simp
      also have "rows_loop rows (Suc i) len (Suc a) (ranks @ [(?k, ?v)]) =
          (ranks @ [(?k, ?v)]) @ entries (Suc a) (filter (\<lambda>r. \<not> node_has_class ''expand-child'' r) (drop (Suc i) rows))"
        using "1.IH"(1)[OF \<open>i < len\<close> refl hc refl refl refl refl refl "1.prems"(1)] fresh nth ms
        by (simp add: row_key_def row_record_def rank_element_def team_element_def
              score_element_def attr_def)
      finally show ?thesis using False by (simp add: dr)
    qed
  qed
qed


lemma parseRanks_entries:
  "load E tableHtml = Inr doc \<Longrightarrow> parseRanks E a tableHtml = Inr (entries a (data_rows doc))"
  by (simp add: parseRanks_def Let_def RANK_TABLE_OFFSET_def rows_loop_entries data_rows_def
      rankTableRows_def)

lemma parseRanks_thrown:
  "load E tableHtml = Inl err \<Longrightarrow> parseRanks E a tableHtml = Inl err"
  by (simp add: parseRanks_def)

lemma length_entries: "length (entries a rs) = length rs"
  by (induction rs arbitrary: a) simp_all

lemma values_entries: "map snd (entries a rs) = map row_record rs"
  by (induction rs arbitrary: a) simp_all

lemma key_fields_entries: "map (\<lambda>e. snd (fst e)) (entries a rs) = map row_key rs"
  by (induction rs arbitrary: a) simp_all

lemma key_ids_entries: "map (\<lambda>e. fst (fst e)) (entries a rs) = [a ..< a + length rs]"
  by (induction rs arbitrary: a) (simp_all add: upt_rec)

lemma nth_entries:
  "j < length rs \<Longrightarrow> entries a rs ! j = ((a + j, row_key (rs ! j)), row_record (rs ! j))"
proof (induction rs arbitrary: a j)
  case Nil
  then show ?case by simp
next
  case (Cons r rs)
  then show ?case by (cases j) simp_all
qed

lemma entries_agree:
  "e \<in> set (entries a rs) \<Longrightarrow>
     IRank.rank (snd e) = Some (IRankKey.rank (snd (fst e))) \<and>
     IRank.team (snd e) = Some (IRankKey.team (snd (fst e)))"
  by (induction rs arbitrary: a) (auto simp: row_key_def row_record_def)

lemma map_get_mem:
  "distinct (map (\<lambda>e. fst (fst e)) M) \<Longrightarrow> (k, v) \<in> set M \<Longrightarrow> map_get M k = Some v"
proof (induction M)
  case Nil
  then show ?case by simp
next
  case (Cons e M)
  show ?case
  proof (cases "fst (fst e) = fst k")
    case True
    with Cons.prems have "e = (k, v)" by (force simp: image_iff)
    then show ?thesis by (simp add: map_get_def)
  next
    case False
    with Cons have "map_get M k = Some v" by auto
    with False show ?thesis by (simp add: map_get_def)
  qed
qed

lemma resolve_settled: "p \<noteq> Pending \<Longrightarrow> resolve v p = p"
  by (cases p) simp_all

lemma reject_settled: "p \<noteq> Pending \<Longrightarrow> reject e p = p"
  by (cases p) simp_all

lemma fold_settled:
  "p \<noteq> Pending \<Longrightarrow> fold (\<lambda>key q. if Q key then resolve (g key) q else q) ks p = p"
  by (induction ks) (simp_all add: resolve_settled)

lemma scan_keys:
  assumes "distinct (map (\<lambda>e. fst (fst e)) M)"
    and "\<forall>e\<in>set M. Q (fst e) = Q' (snd e)"
    and "set es \<subseteq> set M"
  shows "fold (\<lambda>key p. if Q key then resolve (map_get M key) p else p) (map fst es) Pending =
           (case find Q' (map snd es) of None \<Rightarrow> Pending | Some v \<Rightarrow> Resolved (Some v))"
  using assms(3)
proof (induction es)
  case Nil
  then show ?case by simp
next
  case (Cons e es)
  obtain k v where e: "e = (k, v)" by (cases e)
  with Cons.prems have mem: "(k, v) \<in> set M" by simp
  show ?case
  proof (cases "Q k")
    case True
    with assms(2) mem have "Q' v" by fastforce
    moreover have "map_get M k = Some v" using assms(1) mem by (rule map_get_mem)
    ultimately show ?thesis using True by (simp add: e fold_settled)
  next
    case False
    with assms(2) mem have "\<not> Q' v" by fastforce
    with False Cons show ?thesis by (simp add: e)
  qed
qed

lemma getRankings_Resolved:
  assumes "getRankings E a fetched = Resolved rankmap"
  shows "\<exists>doc. rankmap = entries a (data_rows doc)"
proof -
  from assms obtain tableHtml where "parseRanks E a tableHtml = Inr rankmap"
    by (auto simp: getRankings_def split: promise.splits sum.splits)
  then show ?thesis
    by (cases "load E tableHtml") (auto simp: parseRanks_thrown parseRanks_entries)
qed

lemma distinct_entries: "distinct (map (\<lambda>e. fst (fst e)) (entries a rs))"
  by (simp add: key_ids_entries)

lemma standing_scan:
  "fold (\<lambda>key p. if IRankKey.rank (snd key) = r then resolve (map_get (entries a rs) key) p else p)
     (map_keys (entries a rs)) Pending =
   (case find (\<lambda>v. IRank.rank v = Some r) (map snd (entries a rs)) of
      None \<Rightarrow> Pending | Some v \<Rightarrow> Resolved (Some v))"
  unfolding map_keys_def
  by (rule scan_keys [OF distinct_entries _ subset_refl]) (auto dest: entries_agree)

lemma team_scan:
  "fold (\<lambda>key p. if toLowerCase (IRankKey.team (snd key)) = toLowerCase t
                  then resolve (map_get (entries a rs) key) p else p)
     (map_keys (entries a rs)) Pending =
   (case find (\<lambda>v. map_option toLowerCase (IRank.team v) = Some (toLowerCase t)) (map snd (entries a rs)) of
      None \<Rightarrow> Pending | Some v \<Rightarrow> Resolved (Some v))"
  unfolding map_keys_def
  by (rule scan_keys [OF distinct_entries _ subset_refl]) (auto dest: entries_agree)





lemma map_get_key:
  assumes "key \<in> set (map_keys rankmap)"
  shows "map_get rankmap key \<noteq> None"
proof -
  from assms obtain e where "e \<in> set rankmap" and "fst (fst e) = fst key"
    by (auto simp: map_keys_def)
  then have "\<exists>x. x \<in> set rankmap \<and> fst (fst x) = fst key"
    by blast
  then have "find (\<lambda>e. fst (fst e) = fst key) rankmap \<noteq> None"
    by (simp only: find_None_iff not_not)
  then show ?thesis
    by (simp add: map_get_def)
qed

section \<open>The claims\<close>

text \<open>
  C1. When the page parses to \<open>doc\<close>, \<open>_parseRanks\<close> returns a map with exactly one
  entry for each data row of the first \<open>wikitable\<close> table (the rows after the first
  two that do not carry \<open>expand-child\<close>), in row order: the records and the key fields
  are those of the rows, one by one, and the keys are pairwise different objects, so rows
  with the same rank and team keep their own entries.
\<close>

theorem parseRanks_one_record_per_data_row:
  assumes "load E tableHtml = Inr doc"
  shows "\<exists>ranks. parseRanks E a tableHtml = Inr ranks \<and>
           length ranks = length (data_rows doc) \<and>
           map snd ranks = map row_record (data_rows doc) \<and>
           map (\<lambda>e. snd (fst e)) ranks = map row_key (data_rows doc) \<and>
           distinct (map (\<lambda>e. fst (fst e)) ranks)"
  using assms
  by (simp add: parseRanks_entries length_entries values_entries key_fields_entries distinct_entries)

text \<open>
  On the first example page there are four data rows, two of them different rows with the
  same rank and team. On the third, the link in the cell that carries
  \<open>team-template-text\<close> itself is read, and the link below a row that carries it is not.
\<close>

theorem parseRanks_one_record_per_data_row_witness:
  "load example_env (Str ''page a'') = Inr page_a \<and>
   length (data_rows page_a) = 4 \<and>
   data_rows page_a ! 1 \<noteq> data_rows page_a ! 2 \<and>
   row_key (data_rows page_a ! 1) = row_key (data_rows page_a ! 2) \<and>
   (\<exists>ranks. parseRanks example_env 0 (Str ''page a'') = Inr ranks \<and>
      length ranks = length (data_rows page_a) \<and>
      map snd ranks = map row_record (data_rows page_a) \<and>
      map (\<lambda>e. snd (fst e)) ranks = map row_key (data_rows page_a) \<and>
      distinct (map (\<lambda>e. fst (fst e)) ranks)) \<and>
   load example_env (Str ''page c'') = Inr page_c \<and>
   (\<exists>ranks. parseRanks example_env 0 (Str ''page c'') = Inr ranks \<and>
      length ranks = 2 \<and>
      map (\<lambda>v. (IRank.rank v, IRank.team v, score v)) (map snd ranks) =
        [(Some ''3'', Some ''On The Cell'', Some ''500''), (Some ''4'', Some [], Some ''400'')])"
proof -
  have hc: "load example_env (Str ''page c'') = Inr page_c"
    by (simp add: example_env_def)
  have nc: "length (data_rows page_c) = 2"
    by code_simp
  have rc: "map (\<lambda>v. (IRank.rank v, IRank.team v, score v)) (map row_record (data_rows page_c)) =
      [(Some ''3'', Some ''On The Cell'', Some ''500''), (Some ''4'', Some [], Some ''400'')]"
    by code_simp
  have c: "\<exists>ranks. parseRanks example_env 0 (Str ''page c'') = Inr ranks \<and>
      length ranks = 2 \<and>
      map (\<lambda>v. (IRank.rank v, IRank.team v, score v)) (map snd ranks) =
        [(Some ''3'', Some ''On The Cell'', Some ''500''), (Some ''4'', Some [], Some ''400'')]"
    using parseRanks_one_record_per_data_row [OF hc, of 0] nc rc by auto
  have h: "load example_env (Str ''page a'') = Inr page_a"
    by (simp add: example_env_def)
  have n: "length (data_rows page_a) = 4"
    by code_simp
  have d: "data_rows page_a ! 1 \<noteq> data_rows page_a ! 2"
    by code_simp
  have e: "row_key (data_rows page_a ! 1) = row_key (data_rows page_a ! 2)"
    by code_simp
  from parseRanks_one_record_per_data_row [OF h, of 0] h n d e hc c show ?thesis
    by blast
qed

text \<open>
  C2. The flags of the record of the \<open>j\<close>-th data row are decided by comparing the
  \<open>style\<close> attribute of the row with the two colour constants: the ineligible constant
  gives \<open>isIneligible\<close> alone, the clinched constant gives \<open>isClinched\<close> alone, any
  other value or no attribute gives neither, and no record has both flags.
\<close>

theorem highlight_flags:
  assumes "load E tableHtml = Inr doc" and "j < length (data_rows doc)"
  shows "\<exists>ranks. parseRanks E a tableHtml = Inr ranks \<and> j < length ranks \<and>
           (let style = node_attr ''style'' (data_rows doc ! j); v = snd (ranks ! j)
            in (style = Some INELIGIBLE_COLOR_INDICATOR \<longrightarrow> isIneligible v \<and> \<not> isClinched v) \<and>
               (style = Some CLINCHED_COLOR_INDICATOR \<longrightarrow> isClinched v \<and> \<not> isIneligible v) \<and>
               (style \<noteq> Some INELIGIBLE_COLOR_INDICATOR \<and> style \<noteq> Some CLINCHED_COLOR_INDICATOR \<longrightarrow>
                  \<not> isClinched v \<and> \<not> isIneligible v) \<and>
               \<not> (isClinched v \<and> isIneligible v))"
proof -
  have ne: "CLINCHED_COLOR_INDICATOR \<noteq> INELIGIBLE_COLOR_INDICATOR"
    by (simp add: CLINCHED_COLOR_INDICATOR_def INELIGIBLE_COLOR_INDICATOR_def)
  have "snd (entries a (data_rows doc) ! j) = row_record (data_rows doc ! j)"
    using assms(2) by (simp add: nth_entries)
  with assms ne show ?thesis
    by (auto simp: parseRanks_entries length_entries row_record_def Let_def)
qed

text \<open>
  The first three data rows of the first example page: clinched, ineligible, unstyled.
\<close>

theorem highlight_flags_witness:
  "load example_env (Str ''page a'') = Inr page_a \<and>
   (\<exists>ranks. parseRanks example_env 0 (Str ''page a'') = Inr ranks \<and>
      node_attr ''style'' (data_rows page_a ! 0) = Some CLINCHED_COLOR_INDICATOR \<and>
      isClinched (snd (ranks ! 0)) \<and> \<not> isIneligible (snd (ranks ! 0)) \<and>
      node_attr ''style'' (data_rows page_a ! 1) = Some INELIGIBLE_COLOR_INDICATOR \<and>
      isIneligible (snd (ranks ! 1)) \<and> \<not> isClinched (snd (ranks ! 1)) \<and>
      node_attr ''style'' (data_rows page_a ! 2) = None \<and>
      \<not> isClinched (snd (ranks ! 2)) \<and> \<not> isIneligible (snd (ranks ! 2)))"
proof -
  have h: "load example_env (Str ''page a'') = Inr page_a"
    by (simp add: example_env_def)
  have n: "0 < length (data_rows page_a)" "1 < length (data_rows page_a)"
    "2 < length (data_rows page_a)"
    by code_simp+
  have s0: "node_attr ''style'' (data_rows page_a ! 0) = Some CLINCHED_COLOR_INDICATOR"
    by code_simp
  have s1: "node_attr ''style'' (data_rows page_a ! 1) = Some INELIGIBLE_COLOR_INDICATOR"
    by code_simp
  have s2: "node_attr ''style'' (data_rows page_a ! 2) = None"
    by code_simp
  from highlight_flags [OF h n(1), of 0] highlight_flags [OF h n(2), of 0]
    highlight_flags [OF h n(3), of 0] h s0 s1 s2
  show ?thesis
    by (auto simp: Let_def)
qed

text \<open>
  C3. When \<open>getRankings\<close> resolves with a map, \<open>getRankByStanding\<close> resolves with the
  first record of the map, in iteration order, whose \<open>rank\<close> is the string asked for,
  and rejects with the error record of message \<open>No team at the given rank\<close> when there
  is none.
\<close>

theorem getRankByStanding_first_match:
  assumes "getRankings E a fetched = Resolved rankmap"
  shows "getRankByStanding E a r fetched =
           (case find (\<lambda>v. IRank.rank v = Some r) (map snd rankmap) of
              Some v \<Rightarrow> Resolved (Some v)
            | None \<Rightarrow>
                Rejected (Record \<lparr>errorMsg = Some ''No team at the given rank'', error = None,
                  hasError = Some True, isClinched = False, isIneligible = False,
                  rank = None, score = None, team = None\<rparr>))"
proof -
  from assms obtain doc where "rankmap = entries a (data_rows doc)"
    using getRankings_Resolved by blast
  with assms show ?thesis
    by (simp add: getRankByStanding_def standing_scan split: option.splits)
qed

text \<open>
  On the first example page rank \<open>2\<close> occurs twice and the first of the two rows is
  returned; \<open>02\<close> is not the string \<open>2\<close> and is not found.
\<close>

theorem getRankByStanding_first_match_witness:
  "getRankings example_env 0 (Resolved (payload ''page a'')) = Resolved (entries 0 (data_rows page_a)) \<and>
   getRankByStanding example_env 0 ''2'' (Resolved (payload ''page a'')) =
     Resolved (Some \<lparr>errorMsg = None, error = None, hasError = None, isClinched = False,
       isIneligible = True, rank = Some ''2'', score = Some ''700'', team = Some ''Team B''\<rparr>) \<and>
   getRankByStanding example_env 0 ''02'' (Resolved (payload ''page a'')) =
     Rejected (Record \<lparr>errorMsg = Some ''No team at the given rank'', error = None,
       hasError = Some True, isClinched = False, isIneligible = False,
       rank = None, score = None, team = None\<rparr>)"
proof -
  have h: "getRankings example_env 0 (Resolved (payload ''page a'')) =
      Resolved (entries 0 (data_rows page_a))"
    by code_simp
  have f1: "find (\<lambda>v. IRank.rank v = Some ''2'') (map snd (entries 0 (data_rows page_a))) =
      Some \<lparr>errorMsg = None, error = None, hasError = None, isClinched = False,
        isIneligible = True, rank = Some ''2'', score = Some ''700'', team = Some ''Team B''\<rparr>"
    by code_simp
  have f2: "find (\<lambda>v. IRank.rank v = Some ''02'') (map snd (entries 0 (data_rows page_a))) = None"
    by code_simp
  from getRankByStanding_first_match [OF h, of "''2''"]
    getRankByStanding_first_match [OF h, of "''02''"] h f1 f2
  show ?thesis
    by simp
qed

text \<open>
  C4. When \<open>getRankings\<close> resolves with a map, \<open>getRankByTeam\<close> resolves with the
  first record of the map whose \<open>team\<close>, in lower case, is the name asked for in lower
  case, and rejects with the error record of message \<open>No team with that name exists\<close>
  when there is none; two names that agree in lower case get the same answer.
\<close>

theorem getRankByTeam_first_match:
  assumes "getRankings E a fetched = Resolved rankmap"
  shows "getRankByTeam E a t fetched =
           (case find (\<lambda>v. map_option toLowerCase (IRank.team v) = Some (toLowerCase t))
                   (map snd rankmap) of
              Some v \<Rightarrow> Resolved (Some v)
            | None \<Rightarrow>
                Rejected (Record \<lparr>errorMsg = None, error = Some ''No team with that name exists'',
                  hasError = Some True, isClinched = False, isIneligible = False,
                  rank = None, score = None, team = None\<rparr>)) \<and>
         (toLowerCase t' = toLowerCase t \<longrightarrow>
            getRankByTeam E a t' fetched = getRankByTeam E a t fetched)"
proof -
  from assms obtain doc where "rankmap = entries a (data_rows doc)"
    using getRankings_Resolved by blast
  with assms show ?thesis
    by (simp add: getRankByTeam_def team_scan split: option.splits)
qed

text \<open>
  \<open>Team A\<close> and \<open>team a\<close> find the same record of the first example page, and
  \<open>Team C\<close> is not found.
\<close>

theorem getRankByTeam_first_match_witness:
  "getRankings example_env 0 (Resolved (payload ''page a'')) = Resolved (entries 0 (data_rows page_a)) \<and>
   toLowerCase ''Team A'' = toLowerCase ''team a'' \<and>
   getRankByTeam example_env 0 ''team a'' (Resolved (payload ''page a'')) =
     Resolved (Some \<lparr>errorMsg = None, error = None, hasError = None, isClinched = True,
       isIneligible = False, rank = Some ''1'', score = Some ''900'', team = Some ''Team A''\<rparr>) \<and>
   getRankByTeam example_env 0 ''Team A'' (Resolved (payload ''page a'')) =
     getRankByTeam example_env 0 ''team a'' (Resolved (payload ''page a'')) \<and>
   getRankByTeam example_env 0 ''Team C'' (Resolved (payload ''page a'')) =
     Rejected (Record \<lparr>errorMsg = None, error = Some ''No team with that name exists'',
       hasError = Some True, isClinched = False, isIneligible = False,
       rank = None, score = None, team = None\<rparr>)"
proof -
  have h: "getRankings example_env 0 (Resolved (payload ''page a'')) =
      Resolved (entries 0 (data_rows page_a))"
    by code_simp
  have l: "toLowerCase ''Team A'' = toLowerCase ''team a''"
    by code_simp
  have f1: "find (\<lambda>v. map_option toLowerCase (IRank.team v) = Some (toLowerCase ''team a''))
      (map snd (entries 0 (data_rows page_a))) =
      Some \<lparr>errorMsg = None, error = None, hasError = None, isClinched = True,
        isIneligible = False, rank = Some ''1'', score = Some ''900'', team = Some ''Team A''\<rparr>"
    by code_simp
  have f2: "find (\<lambda>v. map_option toLowerCase (IRank.team v) = Some (toLowerCase ''Team C''))
      (map snd (entries 0 (data_rows page_a))) = None"
    by code_simp
  from getRankByTeam_first_match [OF h, of "''team a''" "''Team A''"]
    getRankByTeam_first_match [OF h, of "''Team C''" "''Team C''"] h l f1 f2
  show ?thesis
    by simp
qed




text \<open>
  C6. Two pages whose rows after the first two agree once the rows of class
  \<open>expand-child\<close> are left out parse to the same map: whether such rows are there, how
  many, where, and what their cells hold has no effect on the result.
\<close>

theorem expand_child_rows_contribute_nothing:
  assumes "load E html1 = Inr doc1" and "load E html2 = Inr doc2"
    and "filter (\<lambda>r. \<not> node_has_class ''expand-child'' r) (drop 2 (rankTableRows doc1)) =
         filter (\<lambda>r. \<not> node_has_class ''expand-child'' r) (drop 2 (rankTableRows doc2))"
  shows "parseRanks E a html1 = parseRanks E a html2"
  using assms by (simp add: parseRanks_entries data_rows_def)

text \<open>
  The two example pages differ in one row of class \<open>expand-child\<close> with filled cells.
\<close>

theorem expand_child_rows_contribute_nothing_witness:
  "load example_env (Str ''page a'') = Inr page_a \<and>
   load example_env (Str ''page b'') = Inr page_b \<and>
   length (filter (node_has_class ''expand-child'') (rankTableRows page_a)) = 1 \<and>
   filter (node_has_class ''expand-child'') (rankTableRows page_b) = [] \<and>
   filter (\<lambda>r. \<not> node_has_class ''expand-child'' r) (drop 2 (rankTableRows page_a)) =
     filter (\<lambda>r. \<not> node_has_class ''expand-child'' r) (drop 2 (rankTableRows page_b)) \<and>
   parseRanks example_env 0 (Str ''page a'') = parseRanks example_env 0 (Str ''page b'')"
proof -
  have h1: "load example_env (Str ''page a'') = Inr page_a"
    by (simp add: example_env_def)
  have h2: "load example_env (Str ''page b'') = Inr page_b"
    by (simp add: example_env_def)
  have h3: "filter (\<lambda>r. \<not> node_has_class ''expand-child'' r) (drop 2 (rankTableRows page_a)) =
      filter (\<lambda>r. \<not> node_has_class ''expand-child'' r) (drop 2 (rankTableRows page_b))"
    by code_simp
  have x1: "length (filter (node_has_class ''expand-child'') (rankTableRows page_a)) = 1"
    by code_simp
  have x2: "filter (node_has_class ''expand-child'') (rankTableRows page_b) = []"
    by code_simp
  from expand_child_rows_contribute_nothing [OF h1 h2 h3, of 0] h1 h2 h3 x1 x2 show ?thesis
    by blast
qed

text \<open>
  C7. The \<open>j\<close>-th data row has the \<open>j\<close>-th entry of the map whatever its cells hold,
  and a field whose lookup (first bold element of the first cell, team link of the second
  cell, first bold element of the third cell) selects nothing is the empty string.
\<close>

theorem missing_descendants_give_empty_fields:
  assumes "load E tableHtml = Inr doc" and "j < length (data_rows doc)"
  shows "\<exists>ranks. parseRanks E a tableHtml = Inr ranks \<and> j < length ranks \<and>
           (let r = data_rows doc ! j; v = snd (ranks ! j)
            in (rank_element r = [] \<longrightarrow> IRank.rank v = Some []) \<and>
               (team_element r = [] \<longrightarrow> IRank.team v = Some []) \<and>
               (score_element r = [] \<longrightarrow> score v = Some []))"
proof -
  have "snd (entries a (data_rows doc) ! j) = row_record (data_rows doc ! j)"
    using assms(2) by (simp add: nth_entries)
  with assms show ?thesis
    by (simp add: parseRanks_entries length_entries row_record_def Let_def text_of_def)
qed

text \<open>
  The last data row of the first example page has one cell, without bold text or link.
  On the third example page the team lookup of the first data row finds the link, since
  the cell carries the class, and that of the second finds nothing, since only the row
  above the cell carries it.
\<close>

theorem missing_descendants_give_empty_fields_witness:
  "load example_env (Str ''page a'') = Inr page_a \<and> 3 < length (data_rows page_a) \<and>
   rank_element (data_rows page_a ! 3) = [] \<and>
   team_element (data_rows page_a ! 3) = [] \<and>
   score_element (data_rows page_a ! 3) = [] \<and>
   (\<exists>ranks. parseRanks example_env 0 (Str ''page a'') = Inr ranks \<and> 3 < length ranks \<and>
      IRank.rank (snd (ranks ! 3)) = Some [] \<and>
      IRank.team (snd (ranks ! 3)) = Some [] \<and>
      score (snd (ranks ! 3)) = Some []) \<and>
   load example_env (Str ''page c'') = Inr page_c \<and> 1 < length (data_rows page_c) \<and>
   team_element (data_rows page_c ! 0) \<noteq> [] \<and>
   team_element (data_rows page_c ! 1) = [] \<and>
   (\<exists>ranks. parseRanks example_env 0 (Str ''page c'') = Inr ranks \<and> 1 < length ranks \<and>
      IRank.team (snd (ranks ! 0)) = Some ''On The Cell'' \<and>
      IRank.team (snd (ranks ! 1)) = Some [])"
proof -
  have h: "load example_env (Str ''page a'') = Inr page_a"
    by (simp add: example_env_def)
  have n: "3 < length (data_rows page_a)"
    by code_simp
  have e1: "rank_element (data_rows page_a ! 3) = []"
    by code_simp
  have e2: "team_element (data_rows page_a ! 3) = []"
    by code_simp
  have e3: "score_element (data_rows page_a ! 3) = []"
    by code_simp
  have a: "\<exists>ranks. parseRanks example_env 0 (Str ''page a'') = Inr ranks \<and> 3 < length ranks \<and>
      IRank.rank (snd (ranks ! 3)) = Some [] \<and>
      IRank.team (snd (ranks ! 3)) = Some [] \<and>
      score (snd (ranks ! 3)) = Some []"
    using missing_descendants_give_empty_fields [OF h n, of 0] e1 e2 e3
    by (auto simp: Let_def)
  have hc: "load example_env (Str ''page c'') = Inr page_c"
    by (simp add: example_env_def)
  have nc: "1 < length (data_rows page_c)"
    by code_simp
  have c0: "team_element (data_rows page_c ! 0) \<noteq> []"
    by code_simp
  have c1: "team_element (data_rows page_c ! 1) = []"
    by code_simp
  have pc: "parseRanks example_env 0 (Str ''page c'') = Inr (entries 0 (data_rows page_c))"
    by code_simp
  have t0: "IRank.team (snd (entries 0 (data_rows page_c) ! 0)) = Some ''On The Cell''"
    by code_simp
  have c: "\<exists>ranks. parseRanks example_env 0 (Str ''page c'') = Inr ranks \<and> 1 < length ranks \<and>
      IRank.team (snd (ranks ! 0)) = Some ''On The Cell'' \<and>
      IRank.team (snd (ranks ! 1)) = Some []"
    using missing_descendants_give_empty_fields [OF hc nc, of 0] c1 pc t0
    by (auto simp: Let_def)
  from h n e1 e2 e3 a hc nc c0 c1 c show ?thesis
    by blast
qed

text \<open>
  C8. A call of \<open>getRankings\<close> never throws: however the call of the fetch collaborator
  ends, the call returns a promise. When the promise of the collaborator is rejected
  with an error, the promise returned is rejected with the text
  \<open>Error fetching team list: \<close> followed by the text of that error; when the call of
  the collaborator throws, the promise returned is rejected with the error thrown. In
  both cases the rejection, as text, ends with the text of the error.
\<close>

theorem getRankings_transport_failure:
  "(\<forall>thrown. getRankings_call E a cacheFetch \<noteq> Inl thrown) \<and>
   getRankings_call E a (Inr (Rejected err)) =
     Inr (Rejected (Message (''Error fetching team list: '' @ err))) \<and>
   getRankings_call E a (Inl err) = Inr (Rejected (Thrown err)) \<and>
   (cacheFetch = Inr (Rejected err) \<or> cacheFetch = Inl err \<longrightarrow>
      (\<exists>x. getRankings_call E a cacheFetch = Inr (Rejected x) \<and> suffix err (render x)))"
proof -
  have never: "getRankings_call E a c \<noteq> Inl thrown" for c thrown
    by (simp add: getRankings_call_def new_Promise_def split: sum.splits)
  have rejected: "getRankings_call E a (Inr (Rejected err)) =
      Inr (Rejected (Message (''Error fetching team list: '' @ err)))"
    by (simp add: getRankings_call_def new_Promise_def getRankings_def)
  have thrown: "getRankings_call E a (Inl err) = Inr (Rejected (Thrown err))"
    by (simp add: getRankings_call_def new_Promise_def)
  have "suffix err (render (Message (''Error fetching team list: '' @ err)))"
    unfolding render.simps suffix_def by blast
  moreover have "suffix err (render (Thrown err))"
    by simp
  ultimately show ?thesis
    using never rejected thrown by auto
qed

text \<open>
  A fetch that is rejected, and a collaborator that throws when called.
\<close>

theorem getRankings_transport_failure_witness:
  "getRankings_call example_env 0 (Inr (Rejected ''FetchError: socket hang up'')) =
     Inr (Rejected (Message ''Error fetching team list: FetchError: socket hang up'')) \<and>
   suffix ''FetchError: socket hang up''
     (render (Message ''Error fetching team list: FetchError: socket hang up'')) \<and>
   getRankings_call example_env 0 (Inl ''TypeError: fetch failed'') =
     Inr (Rejected (Thrown ''TypeError: fetch failed'')) \<and>
   suffix ''TypeError: fetch failed'' (render (Thrown ''TypeError: fetch failed''))"
proof -
  have s: "suffix ''FetchError: socket hang up''
      (render (Message ''Error fetching team list: FetchError: socket hang up''))"
    using getRankings_transport_failure [of example_env 0
        "Inr (Rejected ''FetchError: socket hang up'')" "''FetchError: socket hang up''"]
    by auto
  from getRankings_transport_failure [of example_env 0
        "Inr (Rejected ''FetchError: socket hang up'')" "''FetchError: socket hang up''"]
    getRankings_transport_failure [of example_env 0
        "Inl ''TypeError: fetch failed''" "''TypeError: fetch failed''"] s
  show ?thesis
    by simp
qed

text \<open>
  C10. Neither lookup resolves with \<open>undefined\<close>: a key taken from the keys of a map
  is found by \<open>get\<close> on that map, so a promise that resolves carries a record.
\<close>

theorem lookups_resolve_defined:
  "getRankByStanding E a r fetched \<noteq> Resolved None \<and>
   getRankByTeam E a t fetched \<noteq> Resolved None \<and>
   (key \<in> set (map_keys rankmap) \<longrightarrow> map_get rankmap key \<noteq> None)"
proof (intro conjI impI)
  show "getRankByStanding E a r fetched \<noteq> Resolved None"
  proof (cases "getRankings E a fetched")
    case (Resolved m)
    then obtain doc where "m = entries a (data_rows doc)"
      using getRankings_Resolved by blast
    with Resolved show ?thesis
      by (simp add: getRankByStanding_def standing_scan split: option.splits)
  qed (simp_all add: getRankByStanding_def)
  show "getRankByTeam E a t fetched \<noteq> Resolved None"
  proof (cases "getRankings E a fetched")
    case (Resolved m)
    then obtain doc where "m = entries a (data_rows doc)"
      using getRankings_Resolved by blast
    with Resolved show ?thesis
      by (simp add: getRankByTeam_def team_scan split: option.splits)
  qed (simp_all add: getRankByTeam_def)
next
  assume "key \<in> set (map_keys rankmap)"
  then show "map_get rankmap key \<noteq> None"
    by (rule map_get_key)
qed

theorem lookups_resolve_defined_witness:
  "getRankByStanding example_env 0 ''1'' (Resolved (payload ''page a'')) \<noteq> Resolved None \<and>
   getRankByTeam example_env 0 ''TEAM B'' (Resolved (payload ''page a'')) \<noteq> Resolved None \<and>
   (1, row_key (data_rows page_a ! 1)) \<in> set (map_keys (entries 0 (data_rows page_a))) \<and>
   map_get (entries 0 (data_rows page_a)) (1, row_key (data_rows page_a ! 1)) \<noteq> None"
proof -
  have k: "(1, row_key (data_rows page_a ! 1)) \<in> set (map_keys (entries 0 (data_rows page_a)))"
    by code_simp
  from lookups_resolve_defined [of example_env 0 "''1''" "Resolved (payload ''page a'')" "''TEAM B''"
      "(1, row_key (data_rows page_a ! 1))" "entries 0 (data_rows page_a)"] k
  show ?thesis
    by blast
qed

end
